theory Spec2Isabelle
  imports Main "HOL-Library.AList" "HOL-Library.DAList"
begin

section \<open>Data of the chat framework\<close>

text \<open>
  The objects of \<^verbatim>\<open>discord.py\<close> that \<^verbatim>\<open>classes.py\<close> reads, with the attributes it
  reads. Identifiers are snowflakes, modelled as natural numbers.
\<close>

record user =
  user_id :: nat
  user_mention :: string

text \<open>
  \<^verbatim>\<open>user != target\<close>: the framework's \<^verbatim>\<open>__eq__\<close>/\<^verbatim>\<open>__ne__\<close> on users and members
  compare the ids.
\<close>

definition user_ne :: "user \<Rightarrow> user \<Rightarrow> bool" where
  "user_ne a b = (user_id a \<noteq> user_id b)"

record channel =
  channel_id :: nat

record message =
  message_id :: nat
  message_channel :: channel
  message_author :: user
  message_content :: string

text \<open>
  \<^verbatim>\<open>reaction.emoji\<close> is a plain \<^verbatim>\<open>str\<close> for a unicode emoji and an emoji object for a
  custom one; \<open>Custom s\<close> is such an object whose \<^verbatim>\<open>str()\<close> is \<open>s\<close>. Strings are the
  UTF-8 bytes of the Python text.
\<close>

datatype emoji = Str string | Custom string

fun str_emoji :: "emoji \<Rightarrow> string" where
  "str_emoji (Str s) = s"
| "str_emoji (Custom s) = s"

definition affirm :: string where
  "affirm = [CHR 0xE2, CHR 0x9C, CHR 0x85]"

definition deny :: string where
  "deny = [CHR 0xE2, CHR 0x9D, CHR 0x8C]"

record reaction =
  reaction_message :: message
  reaction_emoji :: emoji

datatype colour = Colour_red | Colour_green

record embed =
  embed_title :: string
  embed_description :: string
  embed_colour :: colour

text \<open>
  \<^verbatim>\<open>PreMessage\<close>: the fields the waits read or write. The remaining ones (\<^verbatim>\<open>file\<close>,
  \<^verbatim>\<open>files\<close>, \<^verbatim>\<open>nonce\<close>, \<^verbatim>\<open>allowed_mentions\<close>, \<^verbatim>\<open>reference\<close>, \<^verbatim>\<open>mention_author\<close>) are
  handed to the transport unchanged and default to \<^verbatim>\<open>None\<close>.
\<close>

record premessage =
  pm_content :: "string option"
  pm_tts :: bool
  pm_embed :: "embed option"
  pm_delete_after :: "int option"

definition PreMessage :: "string option \<Rightarrow> embed option \<Rightarrow> premessage" where
  "PreMessage c e = \<lparr>pm_content = c, pm_tts = False, pm_embed = e, pm_delete_after = None\<rparr>"

text \<open>
  Exceptions. \<open>HTTPException code\<close> is an error of the web framework, which it answers
  with that status; any other exception that leaves a request handler is answered with
  500.
\<close>

datatype exn =
  TimeoutError | TypeError | AttributeError | HTTPException nat | OtherError string

text \<open>
  What an awaited call does for its caller: it returns a value, raises, or never comes
  back.
\<close>

datatype 'a outcome = Returns 'a | Raises exn | Hangs

text \<open>
  Modelled from the spec: \<^verbatim>\<open>try_add_reaction\<close>, \<^verbatim>\<open>try_delete\<close> and \<^verbatim>\<open>try_except\<close> of
  \<^verbatim>\<open>lib.py\<close>, which the sources do not include, are best-effort operations whose failures
  are swallowed: a call to one of them is recorded and returns. The datatype lists the
  calls, kept in the order they are made or scheduled:
  \<^verbatim>\<open>premessage.send(channel)\<close>, \<^verbatim>\<open>try_add_reaction(message, emotes)\<close>,
  \<^verbatim>\<open>try_delete(message)\<close>, \<^verbatim>\<open>try_except(message.clear_reactions)\<close> and
  \<^verbatim>\<open>reaction.remove(user)\<close>.
\<close>

datatype effect =
    Send channel premessage
  | TryAddReaction message "emoji list option"
  | TryDelete "message option"
  | ClearReactions message
  | RemoveReaction reaction user

section \<open>Modules and the bot\<close>

text \<open>
  A cog instance with the two class-level markers; \<open>None\<close> is a cog that has no such
  attribute (a plain framework cog).
\<close>

record cog =
  qualified_name :: string
  disabled_flag :: "bool option"
  beta_flag :: "bool option"

text \<open>
  The bot: its own user, the framework's dictionary of attached cogs (one cog for a
  name), and what it has printed. The side list \<^verbatim>\<open>__disabled_cogs\<close> is not a field of
  the bot: it is an attribute of the class \<^verbatim>\<open>BotPlus\<close>, one list for every bot of the
  process, and the operations on it take it and give it back.
\<close>

record botplus =
  bot_user :: user
  cogs :: "(string, cog) alist"
  console :: "string list"

section \<open>Event filters\<close>

text \<open>
  \<^verbatim>\<open>max(forbid_premessage.delete_after, 20)\<close>: Python 3 raises \<^verbatim>\<open>TypeError\<close> when it
  compares \<^verbatim>\<open>None\<close> with a number.
\<close>

fun py_max :: "int option \<Rightarrow> int \<Rightarrow> exn + int" where
  "py_max None b = Inl TypeError"
| "py_max (Some a) b = Inr (if b > a then b else a)"

definition default_forbid_premessage :: "user \<Rightarrow> premessage" where
  "default_forbid_premessage target =
     PreMessage None
       (Some \<lparr>embed_title = ''**ERROR**'',
              embed_description = ''Only '' @ user_mention target @ '' can send message here'',
              embed_colour = Colour_red\<rparr>)"

text \<open>
  \<^verbatim>\<open>check_message\<close> returns the predicate, or raises while it builds it. The predicate
  returns its verdict and the calls it has scheduled with \<^verbatim>\<open>asyncio.ensure_future\<close>.
\<close>

definition check_message ::
  "botplus \<Rightarrow> channel \<Rightarrow> user \<Rightarrow> bool \<Rightarrow> premessage option \<Rightarrow>
     exn + (message \<Rightarrow> bool \<times> effect list)" where
  "check_message self channel target forbid forbid_premessage =
     (if forbid then
        (let fp = (case forbid_premessage of
                     None \<Rightarrow> default_forbid_premessage target
                   | Some p \<Rightarrow> p)
         in case py_max (pm_delete_after fp) 20 of
              Inl e \<Rightarrow> Inl e
            | Inr d \<Rightarrow>
                (let fp' = fp\<lparr>pm_delete_after := Some d\<rparr>
                 in Inr (\<lambda>message.
                      if channel_id (message_channel message) = channel_id channel
                         \<and> user_id (message_author message)
                             \<notin> set [user_id target, user_id (bot_user self)]
                      then (False, [TryDelete (Some message), Send channel fp'])
                      else (channel_id (message_channel message) = channel_id channel
                            \<and> user_id (message_author message) = user_id target, []))))
      else
        Inr (\<lambda>message.
          (channel_id (message_channel message) = channel_id channel
           \<and> user_id (message_author message) = user_id target, [])))"

definition check_reaction ::
  "botplus \<Rightarrow> message \<Rightarrow> user \<Rightarrow> emoji list option \<Rightarrow>
     reaction \<times> user \<Rightarrow> bool \<times> effect list" where
  "check_reaction self message target emotes = (\<lambda>(reaction, u).
     let fx = (if message_id (reaction_message reaction) = message_id message
                  \<and> user_id u \<noteq> user_id (bot_user self)
               then [RemoveReaction reaction u] else [])
     in if user_ne u target
           \<or> message_id (reaction_message reaction) \<noteq> message_id message
        then (False, fx)
        else ((case emotes of
                 None \<Rightarrow> True
               | Some es \<Rightarrow> length es = 0
                   \<or> str_emoji (reaction_emoji reaction) \<in> set (map str_emoji es)),
              fx))"

section \<open>Waiting for an event\<close>

text \<open>
  The runtime's primitive "await the next event of a kind that satisfies a predicate,
  with a timeout" (\<^verbatim>\<open>wait_for\<close>). What happens while a wait is pending is a list: an
  event of the kind is delivered, or the wait fails with an error. The predicate is run
  on each delivered event, and what it schedules is kept; the first event it accepts
  resolves the wait. When the list ends unresolved, the timer fires
  (\<^verbatim>\<open>asyncio.TimeoutError\<close>); with no timeout the wait stays pending for ever.
\<close>

datatype 'ev happening = Delivered 'ev | Failure exn

fun wait_for ::
  "('ev \<Rightarrow> bool \<times> effect list) \<Rightarrow> int option \<Rightarrow> 'ev happening list \<Rightarrow>
     'ev outcome \<times> effect list" where
  "wait_for check timeout [] =
     (case timeout of None \<Rightarrow> (Hangs, []) | Some t \<Rightarrow> (Raises TimeoutError, []))"
| "wait_for check timeout (Failure x # hs) = (Raises x, [])"
| "wait_for check timeout (Delivered e # hs) =
     (if fst (check e) then (Returns e, snd (check e))
      else (case wait_for check timeout hs of (r, fx) \<Rightarrow> (r, snd (check e) @ fx)))"

text \<open>
  \<^verbatim>\<open>get_reaction\<close>, from the sent prompt on: \<open>message\<close> is the handle that
  \<^verbatim>\<open>premessage.send(channel)\<close> has returned. The
  \<^verbatim>\<open>finally\<close> block runs when the wait returns or raises, and the \<^verbatim>\<open>return\<close> follows
  the block, so an exception of the wait goes on to the caller after the cleanup.
\<close>

definition get_reaction ::
  "botplus \<Rightarrow> channel \<Rightarrow> premessage \<Rightarrow> user \<Rightarrow> int option \<Rightarrow> bool \<Rightarrow>
     emoji list option \<Rightarrow> message \<Rightarrow> (reaction \<times> user) happening list \<Rightarrow>
     emoji option outcome \<times> effect list" where
  "get_reaction self channel premessage target timeout delete_after emotes message happenings =
     (let fx0 = [Send channel premessage, TryAddReaction message emotes];
          cleanup = (if delete_after then [TryDelete (Some message)]
                     else [ClearReactions message])
      in case wait_for (check_reaction self message target emotes) timeout happenings of
           (Returns event, fx) \<Rightarrow>
             (Returns (Some (reaction_emoji (fst event))), fx0 @ fx @ cleanup)
         | (Raises e, fx) \<Rightarrow> (Raises e, fx0 @ fx @ cleanup)
         | (Hangs, fx) \<Rightarrow> (Hangs, fx0 @ fx))"

definition confirm ::
  "botplus \<Rightarrow> channel \<Rightarrow> premessage \<Rightarrow> user \<Rightarrow> int option \<Rightarrow> bool \<Rightarrow>
     message \<Rightarrow> (reaction \<times> user) happening list \<Rightarrow>
     bool option outcome \<times> effect list" where
  "confirm self channel premessage target timeout delete_after message happenings =
     (case get_reaction self channel premessage target timeout delete_after
             (Some [Str affirm, Str deny]) message happenings of
        (Returns emoji, fx) \<Rightarrow>
          (Returns (case emoji of None \<Rightarrow> None | Some e \<Rightarrow> Some (e = Str affirm)), fx)
      | (Raises e, fx) \<Rightarrow> (Raises e, fx)
      | (Hangs, fx) \<Rightarrow> (Hangs, fx))"

text \<open>
  The expression under \<^verbatim>\<open>try\<close> in \<^verbatim>\<open>get_answer\<close>: the predicate is built first, as the
  argument of the wait, and building it may raise; then the wait is awaited.
\<close>

definition wait_for_message ::
  "botplus \<Rightarrow> channel \<Rightarrow> user \<Rightarrow> int option \<Rightarrow> bool \<Rightarrow> premessage option \<Rightarrow>
     message happening list \<Rightarrow> message outcome \<times> effect list" where
  "wait_for_message self channel target timeout forbid forbid_premessage happenings =
     (case check_message self channel target forbid forbid_premessage of
        Inl e \<Rightarrow> (Raises e, [])
      | Inr check \<Rightarrow> wait_for check timeout happenings)"

text \<open>
  \<^verbatim>\<open>get_answer\<close>. \<open>sent\<close> is what \<^verbatim>\<open>await premessage.send(channel)\<close> does: the transport
  raises, or returns the handle of the sent message. The send stands before the \<^verbatim>\<open>try\<close>
  block, so its exception goes on to the caller. The \<^verbatim>\<open>return\<close> stands inside the
  \<^verbatim>\<open>finally\<close> block: whatever the block under \<^verbatim>\<open>try\<close> raised is dropped and \<^verbatim>\<open>content\<close>
  is returned.
\<close>

definition get_answer ::
  "botplus \<Rightarrow> channel \<Rightarrow> premessage \<Rightarrow> user \<Rightarrow> int option \<Rightarrow> bool \<Rightarrow> bool \<Rightarrow>
     premessage option \<Rightarrow> exn + message \<Rightarrow> message happening list \<Rightarrow>
     string option outcome \<times> effect list" where
  "get_answer self channel premessage target timeout delete_after forbid forbid_premessage
       sent happenings =
     (let fx0 = [Send channel premessage]
      in case sent of
           Inl e \<Rightarrow> (Raises e, fx0)
         | Inr message \<Rightarrow>
            (case wait_for_message self channel target timeout forbid forbid_premessage
                    happenings of
               (Returns respond, fx) \<Rightarrow>
                 (Returns (Some (message_content respond)),
                  fx0 @ fx @ (if delete_after
                              then [TryDelete (Some message), TryDelete (Some respond)]
                              else []))
             | (Raises e, fx) \<Rightarrow>
                 (Returns None,
                  fx0 @ fx @ (if delete_after
                              then [TryDelete (Some message), TryDelete None]
                              else []))
             | (Hangs, fx) \<Rightarrow> (Hangs, fx0 @ fx)))"

text \<open>The calls of the cleanup step of \<^verbatim>\<open>get_reaction\<close> on the prompt, in a trace.\<close>

definition cleanups :: "bool \<Rightarrow> message \<Rightarrow> effect list \<Rightarrow> nat" where
  "cleanups delete_after message fx =
     length (filter (\<lambda>e. e = (if delete_after then TryDelete (Some message)
                                else ClearReactions message)) fx)"

section \<open>Module lifecycle\<close>

text \<open>
  A module class: whether it derives from \<^verbatim>\<open>CogPlus\<close>, its name, and the class
  attributes \<^verbatim>\<open>__disabled__\<close> and \<^verbatim>\<open>__beta__\<close>, which the decorators set.
\<close>

record cog_class =
  is_CogPlus :: bool
  class_name :: string
  class_disabled :: bool
  class_beta :: bool

definition BetaDisabled :: string where "BetaDisabled = ''BetaDisabled''"
definition BetaEnabled :: string where "BetaEnabled = ''BetaEnabled''"
definition Disabled :: string where "Disabled = ''Disabled''"
definition Enabled :: string where "Enabled = ''Enabled''"

definition disabled :: "cog_class \<Rightarrow> exn + cog_class" where
  "disabled cls = (if is_CogPlus cls then Inr (cls\<lparr>class_disabled := True\<rparr>) else Inl TypeError)"

definition beta :: "cog_class \<Rightarrow> exn + cog_class" where
  "beta cls = (if is_CogPlus cls then Inr (cls\<lparr>class_beta := True\<rparr>) else Inl TypeError)"

text \<open>\<^verbatim>\<open>cls(self)\<close>: the instance carries its class's name and markers.\<close>

definition instantiate :: "cog_class \<Rightarrow> cog" where
  "instantiate cls =
     \<lparr>qualified_name = class_name cls,
      disabled_flag = Some (class_disabled cls),
      beta_flag = Some (class_beta cls)\<rparr>"

text \<open>\<^verbatim>\<open>hasattr(cog, '__beta__') and cog.__beta__\<close>\<close>

definition has_beta :: "cog \<Rightarrow> bool" where
  "has_beta c = (case beta_flag c of None \<Rightarrow> False | Some b \<Rightarrow> b)"

text \<open>
  \<^verbatim>\<open>add_cog\<close>: the framework stores the cog under its name in its dictionary of attached
  cogs, which is the live dispatch channel; then the beta notice is printed.
\<close>

definition add_cog :: "botplus \<Rightarrow> cog \<Rightarrow> botplus" where
  "add_cog self c =
     self\<lparr>cogs := DAList.update (qualified_name c) c (cogs self),
          console := console self @
            (if has_beta c
             then [''\"'' @ qualified_name c @ ''\" is in beta status but it has been activated'']
             else [])\<rparr>"

text \<open>
  \<^verbatim>\<open>load_cog\<close>. \<open>disabled_cogs\<close> is the class attribute \<^verbatim>\<open>BotPlus.__disabled_cogs\<close>, to
  which \<^verbatim>\<open>append\<close> adds in place; the result is the list and the bot after the call.
\<close>

definition load_cog :: "cog list \<Rightarrow> botplus \<Rightarrow> cog_class \<Rightarrow> exn + cog list \<times> botplus" where
  "load_cog disabled_cogs self cls =
     (if is_CogPlus cls then
        (let c = instantiate cls
         in if disabled_flag c = Some True
            then Inr (disabled_cogs @ [c], self)
            else Inr (disabled_cogs, add_cog self c))
      else Inl TypeError)"

text \<open>\<^verbatim>\<open>dict(pairs)\<close>: a later pair replaces an earlier one with the same key.\<close>

definition dict :: "('k \<times> 'v) list \<Rightarrow> ('k \<times> 'v) list" where
  "dict ps = foldl (\<lambda>d (k, v). AList.update k v d) [] ps"

text \<open>\<^verbatim>\<open>cogs_status\<close>, read by a bot from its attached cogs and the class's side list.\<close>

definition cogs_status :: "cog list \<Rightarrow> botplus \<Rightarrow> (string \<times> string) list" where
  "cogs_status disabled_cogs self =
     dict (map (\<lambda>(name, c). (name, if has_beta c then BetaEnabled else Enabled))
             (DAList.impl_of (cogs self))
           @ map (\<lambda>c. (qualified_name c, if has_beta c then BetaDisabled else Disabled))
               disabled_cogs)"

text \<open>The cogs attached to a bot.\<close>

definition attached :: "botplus \<Rightarrow> cog set" where
  "attached self = snd ` set (DAList.impl_of (cogs self))"

section \<open>The vote webhook\<close>

datatype json =
    JNull | JBool bool | JNum int | JStr string | JArr "json list" | JObj "(string \<times> json) list"

text \<open>
  What the handler reads of a request: the \<^verbatim>\<open>Authorization\<close> header; what evaluating
  \<^verbatim>\<open>request.json\<close> does, which is to raise an error of the framework (400 for a body that
  is not the JSON it announces) or to give the parsed body (\<open>JNull\<close> for \<^verbatim>\<open>None\<close>); and
  \<^verbatim>\<open>request.form\<close> and \<^verbatim>\<open>request.args\<close> (for each key its first value, as \<^verbatim>\<open>get\<close> reads
  them).
\<close>

record request =
  authorization :: "string option"
  req_json :: "exn + json"
  req_form :: "(string \<times> string) list"
  req_args :: "(string \<times> string) list"

record api =
  api_auth :: "string option"

datatype response = Response nat

fun truthy :: "json \<Rightarrow> bool" where
  "truthy JNull = False"
| "truthy (JBool b) = b"
| "truthy (JNum n) = (n \<noteq> 0)"
| "truthy (JStr s) = (s \<noteq> [])"
| "truthy (JArr xs) = (xs \<noteq> [])"
| "truthy (JObj kvs) = (kvs \<noteq> [])"

definition fields :: "(string \<times> string) list \<Rightarrow> json" where
  "fields kvs = JObj (map (\<lambda>(k, v). (k, JStr v)) kvs)"

text \<open>
  \<^verbatim>\<open>request.json or request.form or request.args or {}\<close>: \<^verbatim>\<open>request.json\<close> is evaluated
  first and may raise.
\<close>

definition request_data :: "request \<Rightarrow> exn + json" where
  "request_data r =
     (case req_json r of
        Inl e \<Rightarrow> Inl e
      | Inr j \<Rightarrow>
          Inr (if truthy j then j
               else if req_form r \<noteq> [] then fields (req_form r)
               else if req_args r \<noteq> [] then fields (req_args r)
               else JObj []))"

text \<open>\<^verbatim>\<open>data.get(key, None)\<close>: only a dictionary has the method.\<close>

fun py_get :: "json \<Rightarrow> string \<Rightarrow> exn + json" where
  "py_get (JObj kvs) k = Inr (case map_of kvs k of None \<Rightarrow> JNull | Some v \<Rightarrow> v)"
| "py_get _ k = Inl AttributeError"

text \<open>
  \<^verbatim>\<open>API.vote\<close>: the response, and the events handed to \<^verbatim>\<open>bot.dispatch\<close> with their
  payload.
\<close>

definition vote :: "api \<Rightarrow> request \<Rightarrow> (exn + response) \<times> (string \<times> json) list" where
  "vote self request =
     (let req_auth = authorization request
      in if api_auth self = req_auth \<and> api_auth self \<noteq> None then
           (case request_data request of
              Inl e \<Rightarrow> (Inl e, [])
            | Inr data \<Rightarrow>
               (case py_get data ''type'' of
                  Inl e \<Rightarrow> (Inl e, [])
                | Inr t \<Rightarrow>
                    if t = JStr ''upvote'' then (Inr (Response 200), [(''vote'', data)])
                    else if t = JStr ''test'' then (Inr (Response 200), [(''test_vote'', data)])
                    else (Inr (Response 401), [])))
         else (Inr (Response 401), []))"

section \<open>Sample data\<close>

definition bot0 :: botplus where
  "bot0 = \<lparr>bot_user = \<lparr>user_id = 1, user_mention = ''<@1>''\<rparr>,
           cogs = DAList.empty, console = []\<rparr>"

definition alice :: user where
  "alice = \<lparr>user_id = 2, user_mention = ''<@2>''\<rparr>"

definition bob :: user where
  "bob = \<lparr>user_id = 3, user_mention = ''<@3>''\<rparr>"

definition room :: channel where
  "room = \<lparr>channel_id = 7\<rparr>"

definition prompt0 :: message where
  "prompt0 = \<lparr>message_id = 100, message_channel = room,
              message_author = bot_user bot0, message_content = ''Proceed?''\<rparr>"

definition yes0 :: reaction where
  "yes0 = \<lparr>reaction_message = prompt0, reaction_emoji = Str affirm\<rparr>"

definition no0 :: reaction where
  "no0 = \<lparr>reaction_message = prompt0, reaction_emoji = Str deny\<rparr>"

definition ask :: premessage where
  "ask = PreMessage (Some ''Proceed?'') None"

definition hello :: message where
  "hello = \<lparr>message_id = 102, message_channel = room,
            message_author = alice, message_content = ''hello''\<rparr>"

definition intrusion :: message where
  "intrusion = \<lparr>message_id = 101, message_channel = room,
                message_author = bob, message_content = ''me first''\<rparr>"

definition stay_out :: premessage where
  "stay_out = \<lparr>pm_content = Some ''stay out'', pm_tts = False, pm_embed = None,
               pm_delete_after = Some 5\<rparr>"

definition greeter :: cog_class where
  "greeter = \<lparr>is_CogPlus = True, class_name = ''Greeter'',
               class_disabled = True, class_beta = True\<rparr>"

definition music :: cog_class where
  "music = \<lparr>is_CogPlus = True, class_name = ''Music'',
             class_disabled = False, class_beta = False\<rparr>"

definition shadow :: cog_class where
  "shadow = \<lparr>is_CogPlus = True, class_name = ''Music'',
              class_disabled = True, class_beta = True\<rparr>"

definition mute :: cog_class where
  "mute = \<lparr>is_CogPlus = True, class_name = ''Greeter'',
            class_disabled = True, class_beta = False\<rparr>"

definition radio :: cog_class where
  "radio = \<lparr>is_CogPlus = True, class_name = ''Radio'',
             class_disabled = False, class_beta = True\<rparr>"

definition bot_music :: botplus where
  "bot_music = add_cog bot0 (instantiate music)"

definition bot_radio :: botplus where
  "bot_radio = add_cog bot_music (instantiate radio)"

definition bot2 :: botplus where
  "bot2 = \<lparr>bot_user = bob, cogs = DAList.empty, console = []\<rparr>"

definition api0 :: api where
  "api0 = \<lparr>api_auth = Some ''s3cret''\<rparr>"

definition upvote_request :: request where
  "upvote_request =
     \<lparr>authorization = Some ''s3cret'',
      req_json = Inr (JObj [(''user'', JStr ''42''), (''type'', JStr ''upvote'')]),
      req_form = [], req_args = []\<rparr>"

definition test_request :: request where
  "test_request =
     \<lparr>authorization = Some ''s3cret'', req_json = Inr JNull,
      req_form = [(''type'', ''test'')], req_args = []\<rparr>"

definition list_request :: request where
  "list_request =
     \<lparr>authorization = Some ''s3cret'', req_json = Inr (JArr [JNum 1]),
      req_form = [], req_args = []\<rparr>"

definition malformed_request :: request where
  "malformed_request =
     \<lparr>authorization = Some ''s3cret'', req_json = Inl (HTTPException 400),
      req_form = [], req_args = []\<rparr>"

section \<open>The reaction filter\<close>

text \<open>
  C1. The predicate built by \<^verbatim>\<open>check_reaction\<close> for prompt \<open>M\<close>, target \<open>T\<close> and
  emote list \<open>E\<close> accepts a reaction event exactly when the reaction is on \<open>M\<close>, the
  reacting user is \<open>T\<close>, and \<open>E\<close> is absent or empty or the string form of the reaction's
  emoji is among the string forms of \<open>E\<close>; it rejects every other event.
\<close>

theorem check_reaction_qualifies:
  "fst (check_reaction self M T E (r, u)) =
     (message_id (reaction_message r) = message_id M
      \<and> user_id u = user_id T
      \<and> (case E of
            None \<Rightarrow> True
          | Some es \<Rightarrow> es = [] \<or> str_emoji (reaction_emoji r) \<in> str_emoji ` set es))"
  by (auto simp: check_reaction_def user_ne_def Let_def split: option.splits)

theorem check_reaction_qualifies_witness:
  "fst (check_reaction bot0 prompt0 alice (Some [Str affirm, Str deny]) (yes0, alice))
   \<and> \<not> fst (check_reaction bot0 prompt0 alice (Some [Str affirm, Str deny]) (yes0, bob))"
  unfolding check_reaction_qualifies
  by (simp add: yes0_def prompt0_def alice_def bob_def)

text \<open>
  C8. A reaction on the prompt message from a user who is neither the bot nor the target
  has its removal scheduled, whatever the emote list, and the event does not qualify; a
  reaction of the bot's own user is never removed.
\<close>

theorem check_reaction_removes_foreign:
  "(message_id (reaction_message r) = message_id M
      \<and> user_id u \<noteq> user_id (bot_user self) \<and> user_id u \<noteq> user_id T
    \<longrightarrow> check_reaction self M T E (r, u) = (False, [RemoveReaction r u]))
   \<and> (user_id u = user_id (bot_user self)
    \<longrightarrow> snd (check_reaction self M T E (r, u)) = [])"
  by (simp add: check_reaction_def user_ne_def Let_def)

theorem check_reaction_removes_foreign_witness:
  "check_reaction bot0 prompt0 alice None (yes0, bob) = (False, [RemoveReaction yes0 bob])
   \<and> snd (check_reaction bot0 prompt0 alice None (yes0, bot_user bot0)) = []"
proof -
  have a: "message_id (reaction_message yes0) = message_id prompt0
      \<and> user_id bob \<noteq> user_id (bot_user bot0) \<and> user_id bob \<noteq> user_id alice"
    by (simp add: yes0_def bob_def bot0_def alice_def)
  from check_reaction_removes_foreign
         [where r = yes0 and M = prompt0 and u = bob and self = bot0 and T = alice
            and E = None]
       check_reaction_removes_foreign
         [where r = yes0 and M = prompt0 and u = "bot_user bot0" and self = bot0
            and T = alice and E = None]
  show ?thesis using a by simp
qed

text \<open>
  C10. Every reaction on the prompt message from a user other than the bot has its
  removal scheduled by the predicate, the target's own qualifying reaction included.
\<close>

theorem check_reaction_removes_qualifying:
  "message_id (reaction_message r) = message_id M
   \<Longrightarrow> user_id u \<noteq> user_id (bot_user self)
   \<Longrightarrow> snd (check_reaction self M T E (r, u)) = [RemoveReaction r u]"
  by (simp add: check_reaction_def Let_def)

theorem check_reaction_removes_qualifying_witness:
  "check_reaction bot0 prompt0 alice (Some [Str affirm, Str deny]) (yes0, alice)
     = (True, [RemoveReaction yes0 alice])"
proof -
  have a: "message_id (reaction_message yes0) = message_id prompt0"
    by (simp add: yes0_def)
  have b: "user_id alice \<noteq> user_id (bot_user bot0)"
    by (simp add: alice_def bot0_def)
  have "fst (check_reaction bot0 prompt0 alice (Some [Str affirm, Str deny]) (yes0, alice))"
    by (simp add: check_reaction_def user_ne_def Let_def yes0_def)
  with check_reaction_removes_qualifying [OF a b, of alice "Some [Str affirm, Str deny]"]
  show ?thesis by (simp add: prod_eq_iff)
qed

section \<open>The wait primitive\<close>

lemma wait_for_timeout:
  "\<forall>h\<in>set hs. \<exists>e. h = Delivered e \<and> \<not> fst (check e)
   \<Longrightarrow> fst (wait_for check (Some t) hs) = Raises TimeoutError"
  by (induction hs) (auto split: prod.splits)

lemma wait_for_resolved:
  "\<forall>h\<in>set pre. \<exists>e. h = Delivered e \<and> \<not> fst (check e) \<Longrightarrow> fst (check e)
   \<Longrightarrow> fst (wait_for check timeout (pre @ Delivered e # rest)) = Returns e"
  by (induction pre) (auto split: prod.splits)

lemma wait_for_failure:
  "\<forall>h\<in>set pre. \<exists>e. h = Delivered e \<and> \<not> fst (check e)
   \<Longrightarrow> fst (wait_for check timeout (pre @ Failure x # rest)) = Raises x"
  by (induction pre) (auto split: prod.splits)

text \<open>All that a reaction wait schedules while it is pending are removals of reactions.\<close>

lemma wait_for_check_reaction_only_removes:
  "set (snd (wait_for (check_reaction self M T E) timeout hs))
     \<subseteq> range (\<lambda>(r, u). RemoveReaction r u)"
proof (induction hs)
  case Nil
  then show ?case by (simp split: option.splits)
next
  case (Cons h hs)
  show ?case
  proof (cases h)
    case (Delivered e)
    obtain r u where e: "e = (r, u)" by (cases e)
    have c: "set (snd (check_reaction self M T E (r, u)))
               \<subseteq> range (\<lambda>(r, u). RemoveReaction r u)"
      by (auto simp: check_reaction_def Let_def)
    show ?thesis using Cons.IH c
      by (auto simp: Delivered e split: prod.splits)
  next
    case (Failure x)
    then show ?thesis by simp
  qed
qed

section \<open>Cleanup of the reaction wait\<close>

lemma cleanups_Nil: "cleanups d M [] = 0"
  by (simp add: cleanups_def)

lemma cleanups_Cons:
  "cleanups d M (x # xs) =
     (if x = (if d then TryDelete (Some M) else ClearReactions M) then 1 else 0)
     + cleanups d M xs"
  by (simp add: cleanups_def)

lemma cleanups_append: "cleanups d M (xs @ ys) = cleanups d M xs + cleanups d M ys"
  by (simp add: cleanups_def)

lemma cleanups_removes:
  "set fx \<subseteq> range (\<lambda>(r, u). RemoveReaction r u) \<Longrightarrow> cleanups d M fx = 0"
  by (auto simp: cleanups_def filter_empty_conv)

text \<open>
  C7. Whenever \<^verbatim>\<open>get_reaction\<close> comes back to its caller, by a resolved wait, by the
  timeout or by any other error raised while waiting, the trace holds the cleanup call on
  the prompt exactly once: the deletion when \<open>delete_after\<close> is set, the clearing of its
  reactions otherwise, and never the other one of the two. (A call that stays pending
  has not reached the cleanup.)
\<close>

theorem get_reaction_cleanup_once:
  "cleanups delete_after M
       (snd (get_reaction self channel pm T timeout delete_after E M hs))
     = (if fst (get_reaction self channel pm T timeout delete_after E M hs) = Hangs
        then 0 else 1)
   \<and> cleanups (\<not> delete_after) M
       (snd (get_reaction self channel pm T timeout delete_after E M hs)) = 0"
proof -
  obtain r fx where w: "wait_for (check_reaction self M T E) timeout hs = (r, fx)"
    by (cases "wait_for (check_reaction self M T E) timeout hs")
  have "set fx \<subseteq> range (\<lambda>(r, u). RemoveReaction r u)"
    using wait_for_check_reaction_only_removes [of self M T E timeout hs] w by simp
  then have z: "cleanups d M fx = 0" for d by (rule cleanups_removes)
  show ?thesis
    by (cases r)
       (simp_all add: get_reaction_def w Let_def cleanups_append cleanups_Cons cleanups_Nil z)
qed

lemma sample_resolved:
  "fst (get_reaction bot0 room ask alice (Some 30) False (Some [Str affirm, Str deny]) prompt0
          [Delivered (yes0, bob), Delivered (yes0, alice)]) = Returns (Some (Str affirm))"
  by (simp add: get_reaction_def check_reaction_def user_ne_def Let_def yes0_def alice_def bob_def)

lemma sample_timeout:
  "fst (get_reaction bot0 room ask alice (Some 30) True (Some [Str affirm, Str deny]) prompt0
          [Delivered (yes0, bob)]) = Raises TimeoutError"
  by (simp add: get_reaction_def check_reaction_def user_ne_def Let_def yes0_def alice_def bob_def)

lemma sample_failure:
  "fst (get_reaction bot0 room ask alice None False None prompt0
          [Failure (OtherError ''cancelled'')]) = Raises (OtherError ''cancelled'')"
  by (simp add: get_reaction_def)

theorem get_reaction_cleanup_once_witness:
  "cleanups False prompt0
     (snd (get_reaction bot0 room ask alice (Some 30) False (Some [Str affirm, Str deny])
             prompt0 [Delivered (yes0, bob), Delivered (yes0, alice)])) = 1
   \<and> cleanups True prompt0
     (snd (get_reaction bot0 room ask alice (Some 30) True (Some [Str affirm, Str deny])
             prompt0 [Delivered (yes0, bob)])) = 1
   \<and> cleanups False prompt0
     (snd (get_reaction bot0 room ask alice None False None prompt0
             [Failure (OtherError ''cancelled'')])) = 1"
  using
    get_reaction_cleanup_once [of False prompt0 bot0 room ask alice "Some 30"
      "Some [Str affirm, Str deny]" "[Delivered (yes0, bob), Delivered (yes0, alice)]"]
    get_reaction_cleanup_once [of True prompt0 bot0 room ask alice "Some 30"
      "Some [Str affirm, Str deny]" "[Delivered (yes0, bob)]"]
    get_reaction_cleanup_once [of False prompt0 bot0 room ask alice None None
      "[Failure (OtherError ''cancelled'')]"]
  by (simp add: sample_resolved sample_timeout sample_failure)

section \<open>Timeout of the reaction wait\<close>

lemma get_reaction_timeout_raises:
  "\<forall>h\<in>set hs. \<exists>e. h = Delivered e \<and> \<not> fst (check_reaction self M T E e)
   \<Longrightarrow> fst (get_reaction self channel pm T (Some t) delete_after E M hs) = Raises TimeoutError"
  using wait_for_timeout [of hs "check_reaction self M T E" t]
  by (cases "wait_for (check_reaction self M T E) (Some t) hs") (simp add: get_reaction_def Let_def)

lemma get_reaction_never_none:
  "fst (get_reaction self channel pm T timeout delete_after E M hs) \<noteq> Returns None"
  by (cases "wait_for (check_reaction self M T E) timeout hs";
      cases "fst (wait_for (check_reaction self M T E) timeout hs)")
     (simp_all add: get_reaction_def Let_def)

text \<open>
  C3. A reaction wait with a timeout of 30 during which no reaction arrives: the cleanup
  runs and \<^verbatim>\<open>asyncio.TimeoutError\<close> goes on to the caller; \<^verbatim>\<open>None\<close> is not returned.
\<close>

theorem get_reaction_timeout_propagates:
  "get_reaction bot0 room ask alice (Some 30) False (Some [Str affirm, Str deny]) prompt0 []
     = (Raises TimeoutError,
        [Send room ask, TryAddReaction prompt0 (Some [Str affirm, Str deny]),
         ClearReactions prompt0])"
  by (simp add: get_reaction_def)

section \<open>Confirmation\<close>

lemma confirm_result:
  "fst (confirm self channel pm T timeout delete_after M hs) =
     (case fst (get_reaction self channel pm T timeout delete_after
                  (Some [Str affirm, Str deny]) M hs) of
        Returns emoji \<Rightarrow>
          Returns (case emoji of None \<Rightarrow> None | Some e \<Rightarrow> Some (e = Str affirm))
      | Raises e \<Rightarrow> Raises e
      | Hangs \<Rightarrow> Hangs)"
  by (cases "get_reaction self channel pm T timeout delete_after
               (Some [Str affirm, Str deny]) M hs";
      cases "fst (get_reaction self channel pm T timeout delete_after
               (Some [Str affirm, Str deny]) M hs)")
     (simp_all add: confirm_def)

lemma get_reaction_resolved:
  "\<forall>h\<in>set pre. \<exists>e. h = Delivered e \<and> \<not> fst (check_reaction self M T E e)
   \<Longrightarrow> fst (check_reaction self M T E (r, u))
   \<Longrightarrow> fst (get_reaction self channel pm T timeout delete_after E M
             (pre @ Delivered (r, u) # rest)) = Returns (Some (reaction_emoji r))"
  using wait_for_resolved [of pre "check_reaction self M T E" "(r, u)" timeout rest]
  by (cases "wait_for (check_reaction self M T E) timeout (pre @ Delivered (r, u) # rest)")
     (simp add: get_reaction_def Let_def)

text \<open>The affirm symbol gives \<^verbatim>\<open>True\<close> and the deny symbol gives \<^verbatim>\<open>False\<close>.\<close>

lemma confirm_affirm_deny:
  assumes "\<forall>h\<in>set pre. \<exists>e. h = Delivered e
             \<and> \<not> fst (check_reaction self M T (Some [Str affirm, Str deny]) e)"
    and "fst (check_reaction self M T (Some [Str affirm, Str deny]) (r, u))"
  shows "(reaction_emoji r = Str affirm \<longrightarrow>
            fst (confirm self channel pm T timeout delete_after M
                   (pre @ Delivered (r, u) # rest)) = Returns (Some True))
       \<and> (reaction_emoji r = Str deny \<longrightarrow>
            fst (confirm self channel pm T timeout delete_after M
                   (pre @ Delivered (r, u) # rest)) = Returns (Some False))"
  using get_reaction_resolved [OF assms, of channel pm timeout delete_after rest]
  by (simp add: confirm_result affirm_def deny_def)

lemma sample_confirm:
  "fst (confirm bot0 room ask alice (Some 30) False prompt0
          [Delivered (yes0, bob), Delivered (yes0, alice)]) = Returns (Some True)
   \<and> fst (confirm bot0 room ask alice (Some 30) False prompt0
          [Delivered (no0, alice)]) = Returns (Some False)"
  by (simp add: confirm_def get_reaction_def check_reaction_def user_ne_def Let_def
        yes0_def no0_def alice_def bob_def affirm_def deny_def)

text \<open>
  C6. A confirmation with a timeout of 30 during which no reaction arrives: the
  \<^verbatim>\<open>TimeoutError\<close> of the reaction wait passes through \<^verbatim>\<open>confirm\<close>; \<^verbatim>\<open>None\<close> is not
  returned.
\<close>

theorem confirm_timeout_propagates:
  "confirm bot0 room ask alice (Some 30) False prompt0 []
     = (Raises TimeoutError,
        [Send room ask, TryAddReaction prompt0 (Some [Str affirm, Str deny]),
         ClearReactions prompt0])"
  by (simp add: confirm_def get_reaction_def)

section \<open>The reply wait\<close>

lemma check_message_default_raises:
  "check_message self channel target True None = Inl TypeError"
  by (simp add: check_message_def default_forbid_premessage_def PreMessage_def)

lemma check_message_no_delay_raises:
  "pm_delete_after fp = None \<Longrightarrow> check_message self channel target True (Some fp) = Inl TypeError"
  by (simp add: check_message_def)

text \<open>
  With a notice of the caller's that has a numeric delay, the forbid policy works: the
  predicate rejects a foreign message, and schedules its deletion and the notice, which
  is deleted after at least 20.
\<close>

lemma check_message_forbid_foreign:
  assumes "pm_delete_after fp = Some d"
    and "channel_id (message_channel m) = channel_id channel"
    and "user_id (message_author m) \<noteq> user_id target"
    and "user_id (message_author m) \<noteq> user_id (bot_user self)"
  shows "\<exists>check. check_message self channel target True (Some fp) = Inr check
     \<and> check m = (False, [TryDelete (Some m),
                           Send channel (fp\<lparr>pm_delete_after := Some (max d 20)\<rparr>)])"
  using assms by (simp add: check_message_def Let_def max_def)

text \<open>
  C2. A reply wait with the forbid policy and the standard notice (no notice of the
  caller's): building the predicate raises \<^verbatim>\<open>TypeError\<close> at \<^verbatim>\<open>max(None, 20)\<close>, and
  \<^verbatim>\<open>get_answer\<close> returns \<^verbatim>\<open>None\<close> at once. The foreign message that follows is neither
  deleted nor answered with a notice, and the target's reply is not collected.
\<close>

theorem get_answer_forbid_default_fails:
  "check_message bot0 room alice True None = Inl TypeError
   \<and> get_answer bot0 room ask alice (Some 30) False True None (Inr prompt0)
        [Delivered intrusion, Delivered hello] = (Returns None, [Send room ask])"
  by (simp add: get_answer_def wait_for_message_def check_message_default_raises)

text \<open>
  C9, as stated, fails: the send of the prompt stands before the \<^verbatim>\<open>try\<close> block, and when
  the transport refuses it the exception leaves \<^verbatim>\<open>get_answer\<close>.
\<close>

theorem get_answer_send_failure_propagates:
  "get_answer bot0 room ask alice (Some 30) True False None (Inl (OtherError ''Forbidden''))
     [Delivered hello] = (Raises (OtherError ''Forbidden''), [Send room ask])"
  by (simp add: get_answer_def)

text \<open>
  C9, amended. Once the prompt has been sent, \<^verbatim>\<open>get_answer\<close> never raises: when the
  expression under \<^verbatim>\<open>try\<close> raises, by the timeout or by any other exception, the call
  returns \<^verbatim>\<open>None\<close>; when the wait resolves, the call returns the text of the reply. An
  exception of the send itself goes on to the caller.
\<close>

theorem get_answer_swallows_under_try:
  "(\<forall>e. fst (get_answer self channel pm T timeout del forbid fp (Inr M) hs) \<noteq> Raises e)
   \<and> (\<forall>e. fst (wait_for_message self channel T timeout forbid fp hs) = Raises e
        \<longrightarrow> fst (get_answer self channel pm T timeout del forbid fp (Inr M) hs)
              = Returns None)
   \<and> (\<forall>m. fst (wait_for_message self channel T timeout forbid fp hs) = Returns m
        \<longrightarrow> fst (get_answer self channel pm T timeout del forbid fp (Inr M) hs)
              = Returns (Some (message_content m)))
   \<and> fst (get_answer self channel pm T timeout del forbid fp (Inl x) hs) = Raises x"
  by (cases "wait_for_message self channel T timeout forbid fp hs";
      cases "fst (wait_for_message self channel T timeout forbid fp hs)")
     (simp_all add: get_answer_def)

theorem get_answer_swallows_under_try_witness:
  "fst (get_answer bot0 room ask alice (Some 30) True False None (Inr prompt0)
          [Delivered intrusion]) = Returns None
   \<and> fst (get_answer bot0 room ask alice None True False None (Inr prompt0)
          [Delivered intrusion, Failure (OtherError ''cancelled'')]) = Returns None
   \<and> fst (get_answer bot0 room ask alice (Some 30) True True (Some stay_out) (Inr prompt0)
          [Delivered intrusion, Delivered hello]) = Returns (Some ''hello'')
   \<and> fst (get_answer bot0 room ask alice (Some 30) True True (Some stay_out)
          (Inl (OtherError ''Forbidden'')) [Delivered intrusion, Delivered hello])
        = Raises (OtherError ''Forbidden'')"
proof -
  have a: "fst (wait_for_message bot0 room alice (Some 30) False None [Delivered intrusion])
             = Raises TimeoutError"
    by (simp add: wait_for_message_def check_message_def intrusion_def alice_def bob_def)
  have b: "fst (wait_for_message bot0 room alice None False None
                  [Delivered intrusion, Failure (OtherError ''cancelled'')])
             = Raises (OtherError ''cancelled'')"
    by (simp add: wait_for_message_def check_message_def intrusion_def alice_def bob_def)
  have c: "fst (wait_for_message bot0 room alice (Some 30) True (Some stay_out)
                  [Delivered intrusion, Delivered hello]) = Returns hello"
    by (simp add: wait_for_message_def check_message_def intrusion_def hello_def alice_def
          bob_def bot0_def stay_out_def Let_def)
  have d: "message_content hello = ''hello''" by (simp add: hello_def)
  from
    get_answer_swallows_under_try [of bot0 room ask alice "Some 30" True False None prompt0
      "[Delivered intrusion]"]
    get_answer_swallows_under_try [of bot0 room ask alice None True False None prompt0
      "[Delivered intrusion, Failure (OtherError ''cancelled'')]"]
    get_answer_swallows_under_try [of bot0 room ask alice "Some 30" True True "Some stay_out"
      prompt0 "[Delivered intrusion, Delivered hello]" "OtherError ''Forbidden''"]
  show ?thesis using a b c d by simp
qed

section \<open>The vote webhook\<close>

text \<open>
  C4, as stated, fails: with the right credential, a JSON body that is a list has no
  \<^verbatim>\<open>get\<close> and the handler raises \<^verbatim>\<open>AttributeError\<close> (answered with 500), and a body that
  \<^verbatim>\<open>request.json\<close> refuses is answered with the framework's 400; neither reply is 401.
\<close>

theorem vote_other_body_not_401:
  "vote api0 list_request = (Inl AttributeError, [])
   \<and> vote api0 malformed_request = (Inl (HTTPException 400), [])"
  by (simp add: vote_def request_data_def api0_def list_request_def malformed_request_def)

text \<open>
  C4, amended. Unless a credential is configured and the \<^verbatim>\<open>Authorization\<close> header equals
  it, the response is 401 and nothing is dispatched. With the right credential and a body
  that is read as a dictionary (a JSON object, the form, the query, or nothing): type
  \<^verbatim>\<open>upvote\<close> dispatches the one event \<^verbatim>\<open>vote\<close> with the body and replies 200, type \<^verbatim>\<open>test\<close>
  dispatches the one event \<^verbatim>\<open>test_vote\<close> and replies 200, and any other or no type replies
  401 and dispatches nothing. With the right credential and a body that \<^verbatim>\<open>request.json\<close>
  refuses, the framework's error is the reply and nothing is dispatched.
\<close>

theorem vote_authorization:
  "(\<not> (api_auth self \<noteq> None \<and> authorization req = api_auth self)
      \<longrightarrow> vote self req = (Inr (Response 401), []))
   \<and> (api_auth self \<noteq> None \<and> authorization req = api_auth self
        \<and> request_data req = Inr (JObj kvs)
      \<longrightarrow> vote self req =
            (if map_of kvs ''type'' = Some (JStr ''upvote'')
             then (Inr (Response 200), [(''vote'', JObj kvs)])
             else if map_of kvs ''type'' = Some (JStr ''test'')
             then (Inr (Response 200), [(''test_vote'', JObj kvs)])
             else (Inr (Response 401), [])))
   \<and> (api_auth self \<noteq> None \<and> authorization req = api_auth self
        \<and> req_json req = Inl e
      \<longrightarrow> vote self req = (Inl e, []))"
  by (auto simp: vote_def request_data_def Let_def split: option.splits)

theorem vote_authorization_witness:
  "vote api0 upvote_request
     = (Inr (Response 200),
        [(''vote'', JObj [(''user'', JStr ''42''), (''type'', JStr ''upvote'')])])
   \<and> vote api0 test_request = (Inr (Response 200), [(''test_vote'', JObj [(''type'', JStr ''test'')])])
   \<and> vote api0 (upvote_request\<lparr>authorization := Some ''guess''\<rparr>) = (Inr (Response 401), [])
   \<and> vote \<lparr>api_auth = None\<rparr> (upvote_request\<lparr>authorization := None\<rparr>) = (Inr (Response 401), [])
   \<and> vote api0 (upvote_request\<lparr>req_json := Inr (JObj [(''type'', JStr ''downvote'')])\<rparr>)
     = (Inr (Response 401), [])
   \<and> vote api0 malformed_request = (Inl (HTTPException 400), [])"
proof -
  have a: "api_auth api0 \<noteq> None \<and> authorization upvote_request = api_auth api0
      \<and> request_data upvote_request
          = Inr (JObj [(''user'', JStr ''42''), (''type'', JStr ''upvote'')])"
    by (simp add: api0_def upvote_request_def request_data_def)
  have b: "api_auth api0 \<noteq> None \<and> authorization test_request = api_auth api0
      \<and> request_data test_request = Inr (JObj [(''type'', JStr ''test'')])"
    by (simp add: api0_def test_request_def request_data_def fields_def)
  have c: "\<not> (api_auth api0 \<noteq> None
      \<and> authorization (upvote_request\<lparr>authorization := Some ''guess''\<rparr>) = api_auth api0)"
    by (simp add: api0_def)
  have d: "\<not> (api_auth \<lparr>api_auth = None\<rparr> \<noteq> None
      \<and> authorization (upvote_request\<lparr>authorization := None\<rparr>) = api_auth \<lparr>api_auth = None\<rparr>)"
    by simp
  have e: "api_auth api0 \<noteq> None
      \<and> authorization (upvote_request\<lparr>req_json := Inr (JObj [(''type'', JStr ''downvote'')])\<rparr>)
          = api_auth api0
      \<and> request_data (upvote_request\<lparr>req_json := Inr (JObj [(''type'', JStr ''downvote'')])\<rparr>)
          = Inr (JObj [(''type'', JStr ''downvote'')])"
    by (simp add: api0_def upvote_request_def request_data_def)
  have f: "api_auth api0 \<noteq> None \<and> authorization malformed_request = api_auth api0
      \<and> req_json malformed_request = Inl (HTTPException 400)"
    by (simp add: api0_def malformed_request_def)
  from vote_authorization [of api0 upvote_request
          "[(''user'', JStr ''42''), (''type'', JStr ''upvote'')]"]
       vote_authorization [of api0 test_request "[(''type'', JStr ''test'')]"]
       vote_authorization [of api0 "upvote_request\<lparr>authorization := Some ''guess''\<rparr>" "[]"]
       vote_authorization [of "\<lparr>api_auth = None\<rparr>" "upvote_request\<lparr>authorization := None\<rparr>" "[]"]
       vote_authorization
         [of api0 "upvote_request\<lparr>req_json := Inr (JObj [(''type'', JStr ''downvote'')])\<rparr>"
          "[(''type'', JStr ''downvote'')]"]
       vote_authorization [of api0 malformed_request "[]" "HTTPException 400"]
  show ?thesis using a b c d e f by simp
qed

text \<open>What the handler does with a body that is parsed and is not a dictionary.\<close>

lemma vote_not_a_dictionary:
  "api_auth self \<noteq> None \<Longrightarrow> authorization req = api_auth self
   \<Longrightarrow> request_data req = Inr j \<Longrightarrow> \<forall>kvs. j \<noteq> JObj kvs
   \<Longrightarrow> vote self req = (Inl AttributeError, [])"
  by (cases j) (simp_all add: vote_def Let_def)

section \<open>Registration and status of modules\<close>

lemma map_of_dict_aux:
  "map_of (foldl (\<lambda>d (k, v). AList.update k v d) d ps) = map_of d ++ map_of (rev ps)"
proof (induction ps arbitrary: d)
  case Nil
  then show ?case by simp
next
  case (Cons p ps)
  obtain k v where p: "p = (k, v)" by (cases p)
  show ?case
    by (simp add: Cons.IH p update_conv' map_add_upd_left fun_eq_iff map_add_def split: option.splits)
qed

lemma map_of_dict: "map_of (dict ps) = map_of (rev ps)"
  by (simp add: dict_def map_of_dict_aux)

lemma set_update_subset: "set (AList.update k v al) \<subseteq> insert (k, v) (set al)"
  by (induction al) auto

lemma dict_aux:
  "distinct (map fst d) \<Longrightarrow>
     distinct (map fst (foldl (\<lambda>d (k, v). AList.update k v d) d ps))
     \<and> set (foldl (\<lambda>d (k, v). AList.update k v d) d ps) \<subseteq> set d \<union> set ps"
proof (induction ps arbitrary: d)
  case Nil
  then show ?case by simp
next
  case (Cons p ps)
  obtain k v where p: "p = (k, v)" by (cases p)
  have "distinct (map fst (AList.update k v d))" using Cons.prems by (rule distinct_update)
  from Cons.IH [OF this] set_update_subset [of k v d] show ?case
    by (auto simp: p)
qed

lemma distinct_dict: "distinct (map fst (dict ps))"
  using dict_aux [of "[]" ps] by (simp add: dict_def)

lemma set_dict: "set (dict ps) \<subseteq> set ps"
  using dict_aux [of "[]" ps] by (simp add: dict_def)

lemma cogs_status_lookup:
  "map_of (cogs_status D self) n =
     (case map_of (rev (map (\<lambda>c. (qualified_name c, if has_beta c then BetaDisabled else Disabled))
                      D)) n of
        Some v \<Rightarrow> Some v
      | None \<Rightarrow>
          map_of (rev (map (\<lambda>(name, c). (name, if has_beta c then BetaEnabled else Enabled))
                      (DAList.impl_of (cogs self)))) n)"
  by (simp add: cogs_status_def map_of_dict map_add_def)

lemma map_of_rev_SomeI:
  assumes "distinct (map fst xs)" and "(k, v) \<in> set xs"
  shows "map_of (rev xs) k = Some v"
proof -
  have "map fst (rev xs) = rev (map fst xs)" by (rule rev_map [symmetric])
  with assms(1) have "distinct (map fst (rev xs))" by simp
  moreover from assms(2) have "(k, v) \<in> set (rev xs)" by simp
  ultimately show ?thesis by (rule map_of_is_SomeI)
qed

lemma map_of_rev_NoneI: "k \<notin> fst ` set xs \<Longrightarrow> map_of (rev xs) k = None"
  by (simp add: map_of_eq_None_iff)

lemma status_disabled:
  assumes "D = pre @ d # post" and "qualified_name d \<notin> qualified_name ` set post"
  shows "map_of (cogs_status D self) (qualified_name d)
           = Some (if has_beta d then BetaDisabled else Disabled)"
proof -
  let ?g = "\<lambda>c. (qualified_name c, if has_beta c then BetaDisabled else Disabled)"
  have "fst ` set (map ?g post) = qualified_name ` set post" by force
  with assms(2) have "qualified_name d \<notin> fst ` set (map ?g post)" by simp
  then have n: "map_of (rev (map ?g post)) (qualified_name d) = None"
    by (rule map_of_rev_NoneI)
  have "rev (map ?g D) = rev (map ?g post) @ ?g d # rev (map ?g pre)"
    by (simp add: assms(1))
  then have "map_of (rev (map ?g D)) (qualified_name d)
      = Some (if has_beta d then BetaDisabled else Disabled)"
    using n by (simp add: map_add_def)
  then show ?thesis by (simp only: cogs_status_lookup option.case)
qed

lemma status_attached:
  assumes "DAList.lookup (cogs self) n = Some c" and "n \<notin> qualified_name ` set D"
  shows "map_of (cogs_status D self) n = Some (if has_beta c then BetaEnabled else Enabled)"
proof -
  let ?D = "map (\<lambda>c. (qualified_name c, if has_beta c then BetaDisabled else Disabled)) D"
  let ?A = "map (\<lambda>(name, c). (name, if has_beta c then BetaEnabled else Enabled))
              (DAList.impl_of (cogs self))"
  have "fst ` set ?D = qualified_name ` set D" by force
  with assms(2) have "n \<notin> fst ` set ?D" by simp
  then have d: "map_of (rev ?D) n = None" by (rule map_of_rev_NoneI)
  have e: "map fst ?A = map fst (DAList.impl_of (cogs self))"
    by (simp add: case_prod_unfold comp_def)
  have "distinct (map fst ?A)" unfolding e by (rule impl_of_distinct)
  moreover have "map_of (DAList.impl_of (cogs self)) n = Some c"
    using assms(1) by (simp add: DAList.lookup.rep_eq)
  then have "(n, c) \<in> set (DAList.impl_of (cogs self))" by (rule map_of_SomeD)
  then have "(n, if has_beta c then BetaEnabled else Enabled) \<in> set ?A" by force
  ultimately have "map_of (rev ?A) n = Some (if has_beta c then BetaEnabled else Enabled)"
    by (rule map_of_rev_SomeI)
  with d show ?thesis by (simp only: cogs_status_lookup option.case)
qed

lemma status_labels:
  "snd ` set (cogs_status D self) \<subseteq> {BetaDisabled, BetaEnabled, Disabled, Enabled}"
proof -
  have "set (cogs_status D self)
      \<subseteq> set (map (\<lambda>(name, c). (name, if has_beta c then BetaEnabled else Enabled))
                 (DAList.impl_of (cogs self))
               @ map (\<lambda>c. (qualified_name c, if has_beta c then BetaDisabled else Disabled)) D)"
    unfolding cogs_status_def by (rule set_dict)
  then show ?thesis by (auto split: if_splits)
qed

lemma attached_add_cog: "attached (add_cog self c) \<subseteq> insert c (attached self)"
proof -
  have "set (DAList.impl_of (DAList.update (qualified_name c) c (cogs self)))
      \<subseteq> insert (qualified_name c, c) (set (DAList.impl_of (cogs self)))"
    by (simp add: DAList.update.rep_eq set_update_subset)
  then show ?thesis by (auto simp: attached_def add_cog_def)
qed

lemma load_cog_attaches_no_disabled:
  assumes "load_cog D self cls = Inr (D', self')"
    and "\<forall>c\<in>attached self. disabled_flag c \<noteq> Some True"
  shows "\<forall>c\<in>attached self'. disabled_flag c \<noteq> Some True"
proof (cases "disabled_flag (instantiate cls) = Some True")
  case True
  with assms(1) have "self' = self" by (simp add: load_cog_def split: if_splits)
  with assms(2) show ?thesis by simp
next
  case False
  with assms(1) have "self' = add_cog self (instantiate cls)"
    by (simp add: load_cog_def split: if_splits)
  with attached_add_cog [of self "instantiate cls"] assms(2) False show ?thesis by auto
qed


lemma has_beta_instantiate: "has_beta (instantiate cls) = class_beta cls"
  by (simp add: has_beta_def instantiate_def)

lemma load_cog_misuse: "\<not> is_CogPlus cls \<Longrightarrow> load_cog D self cls = Inl TypeError"
  by (simp add: load_cog_def)

lemma decorators_set_markers:
  "is_CogPlus cls \<Longrightarrow>
     disabled cls = Inr (cls\<lparr>class_disabled := True\<rparr>)
     \<and> beta cls = Inr (cls\<lparr>class_beta := True\<rparr>)"
  by (simp add: disabled_def beta_def)

lemma sample_cogs:
  "DAList.impl_of (cogs bot_music) = [(''Music'', instantiate music)]"
  "DAList.impl_of (cogs bot_radio) = [(''Music'', instantiate music), (''Radio'', instantiate radio)]"
  by (simp_all add: bot_radio_def bot_music_def add_cog_def bot0_def instantiate_def music_def
        radio_def DAList.update.rep_eq DAList.empty.rep_eq)

text \<open>
  The side list belongs to the class: a module that one bot has registered as disabled
  is in the status of another bot that has registered nothing.
\<close>

lemma side_list_is_shared:
  "load_cog [] bot0 greeter = Inr ([instantiate greeter], bot0)
   \<and> cogs_status [instantiate greeter] bot2 = [(''Greeter'', BetaDisabled)]"
  by (simp add: load_cog_def cogs_status_def dict_def bot2_def greeter_def instantiate_def
        has_beta_def DAList.empty.rep_eq)

text \<open>
  C5, as stated, fails: the status dictionary is keyed by name and the side list is
  written into it last. A class \<^verbatim>\<open>Music\<close> with neither marker is registered and attached;
  then a class of the same name with both markers is registered and goes to the side
  list. The attached module with both markers false is reported \<^verbatim>\<open>BetaDisabled\<close>, not
  \<^verbatim>\<open>Enabled\<close>. In the same way a disabled beta class \<^verbatim>\<open>Greeter\<close>, followed in the side list
  by a disabled class of the same name without the beta marker, is reported
  \<^verbatim>\<open>Disabled\<close>, not \<^verbatim>\<open>BetaDisabled\<close>.
\<close>

theorem status_name_clash:
  "load_cog [] bot0 music = Inr ([], bot_music)
   \<and> load_cog [] bot_music shadow = Inr ([instantiate shadow], bot_music)
   \<and> DAList.lookup (cogs bot_music) ''Music'' = Some (instantiate music)
   \<and> class_disabled music = False \<and> class_beta music = False
   \<and> map_of (cogs_status [instantiate shadow] bot_music) ''Music'' = Some BetaDisabled
   \<and> BetaDisabled \<noteq> Enabled
   \<and> load_cog [] bot0 greeter = Inr ([instantiate greeter], bot0)
   \<and> load_cog [instantiate greeter] bot0 mute
        = Inr ([instantiate greeter, instantiate mute], bot0)
   \<and> class_disabled greeter = True \<and> class_beta greeter = True
   \<and> map_of (cogs_status [instantiate greeter, instantiate mute] bot0) ''Greeter''
        = Some Disabled
   \<and> Disabled \<noteq> BetaDisabled"
proof -
  have 1: "load_cog [] bot0 music = Inr ([], bot_music)"
    by (simp add: load_cog_def bot_music_def instantiate_def music_def)
  have 2: "load_cog [] bot_music shadow = Inr ([instantiate shadow], bot_music)"
    by (simp add: load_cog_def instantiate_def shadow_def)
  have 3: "DAList.lookup (cogs bot_music) ''Music'' = Some (instantiate music)"
    by (simp add: DAList.lookup.rep_eq sample_cogs)
  have 4: "class_disabled music = False \<and> class_beta music = False"
    by (simp add: music_def)
  have 5: "map_of (cogs_status [instantiate shadow] bot_music) ''Music'' = Some BetaDisabled"
    by (simp add: cogs_status_def dict_def sample_cogs has_beta_def instantiate_def
          shadow_def music_def)
  have 6: "BetaDisabled \<noteq> Enabled"
    by (simp add: BetaDisabled_def Enabled_def)
  have 7: "load_cog [] bot0 greeter = Inr ([instantiate greeter], bot0)"
    by (simp add: load_cog_def instantiate_def greeter_def)
  have 8: "load_cog [instantiate greeter] bot0 mute
             = Inr ([instantiate greeter, instantiate mute], bot0)"
    by (simp add: load_cog_def instantiate_def mute_def)
  have 9: "class_disabled greeter = True \<and> class_beta greeter = True"
    by (simp add: greeter_def)
  have 10: "map_of (cogs_status [instantiate greeter, instantiate mute] bot0) ''Greeter''
              = Some Disabled"
    by (simp add: cogs_status_def dict_def bot0_def DAList.empty.rep_eq has_beta_def
          instantiate_def greeter_def mute_def)
  have 11: "Disabled \<noteq> BetaDisabled"
    by (simp add: BetaDisabled_def Disabled_def)
  from 1 2 3 4 5 6 7 8 9 10 11 show ?thesis by blast
qed

text \<open>
  C5, amended. Registering a class whose disabled marker is set appends its instance to
  the side list (the list of the class \<^verbatim>\<open>BotPlus\<close>, one for every bot of the process) and
  leaves the bot and its attached cogs as they are; and a registration never attaches a
  cog whose disabled marker is set: if none is attached before, none is after. The status
  dictionary has one entry for a name, with one of the four labels. A cog of the side
  list after which no cog of the same name was put there gives its name the label
  \<^verbatim>\<open>BetaDisabled\<close> when its beta marker is set and \<^verbatim>\<open>Disabled\<close> otherwise, whether or not
  a cog of that name is attached. A cog attached under a name that no cog of the side
  list bears gives the name the label \<^verbatim>\<open>BetaEnabled\<close> when its beta marker is set and
  \<^verbatim>\<open>Enabled\<close> otherwise.
\<close>

theorem load_cog_status:
  "(is_CogPlus cls \<and> class_disabled cls
      \<longrightarrow> load_cog D self cls = Inr (D @ [instantiate cls], self))
   \<and> (load_cog D self cls = Inr (D', self')
        \<and> (\<forall>c\<in>attached self. disabled_flag c \<noteq> Some True)
      \<longrightarrow> (\<forall>c\<in>attached self'. disabled_flag c \<noteq> Some True))
   \<and> (D = pre @ d # post \<and> qualified_name d \<notin> qualified_name ` set post
      \<longrightarrow> map_of (cogs_status D self) (qualified_name d)
            = Some (if has_beta d then BetaDisabled else Disabled))
   \<and> (DAList.lookup (cogs self) n = Some c \<and> n \<notin> qualified_name ` set D
      \<longrightarrow> map_of (cogs_status D self) n
            = Some (if has_beta c then BetaEnabled else Enabled))
   \<and> distinct (map fst (cogs_status D self))
   \<and> snd ` set (cogs_status D self) \<subseteq> {BetaDisabled, BetaEnabled, Disabled, Enabled}"
proof (intro conjI impI)
  assume "is_CogPlus cls \<and> class_disabled cls"
  then show "load_cog D self cls = Inr (D @ [instantiate cls], self)"
    by (simp add: load_cog_def instantiate_def)
next
  assume "load_cog D self cls = Inr (D', self')
        \<and> (\<forall>c\<in>attached self. disabled_flag c \<noteq> Some True)"
  then show "\<forall>c\<in>attached self'. disabled_flag c \<noteq> Some True"
    using load_cog_attaches_no_disabled [of D self cls D' self'] by blast
next
  assume "D = pre @ d # post \<and> qualified_name d \<notin> qualified_name ` set post"
  then show "map_of (cogs_status D self) (qualified_name d)
            = Some (if has_beta d then BetaDisabled else Disabled)"
    using status_disabled [of D pre d post self] by blast
next
  assume "DAList.lookup (cogs self) n = Some c \<and> n \<notin> qualified_name ` set D"
  then show "map_of (cogs_status D self) n = Some (if has_beta c then BetaEnabled else Enabled)"
    using status_attached [of self n c D] by blast
next
  show "distinct (map fst (cogs_status D self))"
    unfolding cogs_status_def by (rule distinct_dict)
next
  show "snd ` set (cogs_status D self) \<subseteq> {BetaDisabled, BetaEnabled, Disabled, Enabled}"
    by (rule status_labels)
qed

theorem load_cog_status_witness:
  "load_cog [] bot0 greeter = Inr ([instantiate greeter], bot0)
   \<and> load_cog [instantiate greeter] bot_music radio = Inr ([instantiate greeter], bot_radio)
   \<and> instantiate greeter \<notin> attached bot_radio
   \<and> map_of (cogs_status [instantiate greeter] bot_radio) ''Greeter'' = Some BetaDisabled
   \<and> map_of (cogs_status [instantiate greeter] bot_radio) ''Music'' = Some Enabled"
proof -
  have a: "is_CogPlus greeter \<and> class_disabled greeter" by (simp add: greeter_def)
  have b1: "load_cog [instantiate greeter] bot_music radio
              = Inr ([instantiate greeter], bot_radio)"
    by (simp add: load_cog_def bot_radio_def instantiate_def radio_def)
  have b2: "\<forall>c\<in>attached bot_music. disabled_flag c \<noteq> Some True"
    by (simp add: attached_def sample_cogs instantiate_def music_def)
  have g: "disabled_flag (instantiate greeter) = Some True"
    by (simp add: instantiate_def greeter_def)
  have c: "[instantiate greeter] = [] @ instantiate greeter # []
      \<and> qualified_name (instantiate greeter) \<notin> qualified_name ` set []"
    by simp
  have d: "DAList.lookup (cogs bot_radio) ''Music'' = Some (instantiate music)
      \<and> ''Music'' \<notin> qualified_name ` set [instantiate greeter]"
    by (simp add: DAList.lookup.rep_eq sample_cogs instantiate_def greeter_def)
  have f: "qualified_name (instantiate greeter) = ''Greeter''" "has_beta (instantiate greeter)"
    "\<not> has_beta (instantiate music)"
    by (simp_all add: has_beta_def instantiate_def greeter_def music_def)
  note t1 = load_cog_status [of greeter "[]" bot0]
  note t2 = load_cog_status [of radio "[instantiate greeter]" bot_music
              "[instantiate greeter]" bot_radio]
  note t3 = load_cog_status [of _ "[instantiate greeter]" bot_radio _ _ "[]"
              "instantiate greeter" "[]" "''Music''" "instantiate music"]
  from t1 a have r1: "load_cog [] bot0 greeter = Inr ([instantiate greeter], bot0)" by simp
  from t2 b1 b2 have "\<forall>c\<in>attached bot_radio. disabled_flag c \<noteq> Some True" by blast
  with g have r2: "instantiate greeter \<notin> attached bot_radio" by blast
  from t3 c d f have r3:
    "map_of (cogs_status [instantiate greeter] bot_radio) ''Greeter'' = Some BetaDisabled"
    "map_of (cogs_status [instantiate greeter] bot_radio) ''Music'' = Some Enabled"
    by simp_all
  from r1 b1 r2 r3 show ?thesis by simp
qed

end
